theory Spec2Isabelle
  imports Main
begin

section \<open>Python values used by local-test-server.py\<close>

text \<open>
  Text is modelled as the UTF-8 bytes that reach standard output, so a Python \<open>str\<close> is a
  \<open>string\<close> (a list of 8-bit characters) and each pictograph of the source is the
  byte sequence it has in the source file. Python integers are unbounded: \<open>int\<close>.
\<close>

definition globe :: string where
  "globe = [CHR 0xF0, CHR 0x9F, CHR 0x8C, CHR 0x90]"

definition cross_mark :: string where
  "cross_mark = [CHR 0xE2, CHR 0x9D, CHR 0x8C]"

definition light_bulb :: string where
  "light_bulb = [CHR 0xF0, CHR 0x9F, CHR 0x92, CHR 0xA1]"

definition rocket :: string where
  "rocket = [CHR 0xF0, CHR 0x9F, CHR 0x9A, CHR 0x80]"

definition antenna :: string where
  "antenna = [CHR 0xF0, CHR 0x9F, CHR 0x93, CHR 0xA1]"

definition test_tube :: string where
  "test_tube = [CHR 0xF0, CHR 0x9F, CHR 0xA7, CHR 0xAA]"

definition memo :: string where
  "memo = [CHR 0xF0, CHR 0x9F, CHR 0x93, CHR 0x9D]"

definition wrench :: string where
  "wrench = [CHR 0xF0, CHR 0x9F, CHR 0x94, CHR 0xA7]"

definition stop_button :: string where
  "stop_button = [CHR 0xE2, CHR 0x8F, CHR 0xB9, CHR 0xEF, CHR 0xB8, CHR 0x8F]"

definition info_sign :: string where
  "info_sign = [CHR 0xE2, CHR 0x84, CHR 0xB9, CHR 0xEF, CHR 0xB8, CHR 0x8F]"

text \<open>
  The exceptions the script can meet. \<open>OSError\<close> stands for the class and its
  subclasses and carries \<open>str(e)\<close>; \<open>Exception\<close> is any other class, with its class
  name and its message.
\<close>

datatype exn =
    ValueError string
  | OSError string
  | OverflowError string
  | KeyboardInterrupt
  | Exception string string

fun is_OSError :: "exn \<Rightarrow> bool" where
  "is_OSError (OSError m) = True"
| "is_OSError e = False"

subsection \<open>\<open>str(n)\<close> and \<open>int(s)\<close>\<close>

definition digit_char :: "nat \<Rightarrow> char" where
  "digit_char d = ''0123456789'' ! d"

function str_nat :: "nat \<Rightarrow> string" where
  "str_nat n = (if n < 10 then [digit_char n] else str_nat (n div 10) @ [digit_char (n mod 10)])"
  by pat_completeness auto
termination
  by (relation "measure (\<lambda>n. n)") auto

declare str_nat.simps [simp del]

text \<open>The decimal text an f-string puts in place of \<open>{port}\<close>.\<close>

definition str_int :: "int \<Rightarrow> string" where
  "str_int i = (if i < 0 then CHR ''-'' # str_nat (nat (- i)) else str_nat (nat i))"

definition is_digit :: "char \<Rightarrow> bool" where
  "is_digit c = (c \<in> set ''0123456789'')"

definition digit_val :: "char \<Rightarrow> nat" where
  "digit_val c = of_char c - 48"

text \<open>
  The characters \<open>int()\<close> strips from both ends of an ASCII argument: tab, line feed,
  vertical tab, form feed, carriage return and space.
\<close>

definition is_space :: "char \<Rightarrow> bool" where
  "is_space c = (c \<in> set [CHR 0x09, CHR 0x0A, CHR 0x0B, CHR 0x0C, CHR 0x0D, CHR 0x20])"

definition strip :: "string \<Rightarrow> string" where
  "strip s = rev (dropWhile is_space (rev (dropWhile is_space s)))"

text \<open>
  \<open>parse_digits acc cs\<close> reads the rest of a decimal literal after a digit: more digits,
  each optionally preceded by one underscore.
\<close>

fun parse_digits :: "nat \<Rightarrow> string \<Rightarrow> nat option" where
  "parse_digits acc [] = Some acc"
| "parse_digits acc [c] = (if is_digit c then Some (10 * acc + digit_val c) else None)"
| "parse_digits acc (c # d # cs) =
     (if is_digit c then parse_digits (10 * acc + digit_val c) (d # cs)
      else if c = CHR ''_'' \<and> is_digit d then parse_digits (10 * acc + digit_val d) cs
      else None)"

text \<open>
  The interpreter's default limit on the number of digits of a decimal literal that
  \<open>int()\<close> converts; a longer literal is a \<open>ValueError\<close>. Underscores do not count.
\<close>

definition max_str_digits :: nat where
  "max_str_digits = 4300"

definition parse_unsigned :: "string \<Rightarrow> nat option" where
  "parse_unsigned s =
     (case s of
        [] \<Rightarrow> None
      | c # cs \<Rightarrow>
          if is_digit c then
            (case parse_digits (digit_val c) cs of
               None \<Rightarrow> None
             | Some n \<Rightarrow> if max_str_digits < length (filter is_digit s) then None else Some n)
          else None)"

text \<open>
  The conversion of an ASCII text, base 10: optional white space around an optional sign
  and a decimal literal. \<open>None\<close> is the \<open>ValueError\<close> Python raises.
\<close>

definition parse_ascii :: "string \<Rightarrow> int option" where
  "parse_ascii s =
     (case strip s of
        [] \<Rightarrow> None
      | c # cs \<Rightarrow>
          if c = CHR ''-'' then map_option (\<lambda>n. - int n) (parse_unsigned cs)
          else if c = CHR ''+'' then map_option int (parse_unsigned cs)
          else map_option int (parse_unsigned (c # cs)))"

text \<open>
  A command-line argument reaches the script as the text its UTF-8 bytes encode.
  \<open>utf8_decode\<close> gives the code points of a byte sequence, or \<open>None\<close> when the bytes
  are not UTF-8 (Python then keeps them as lone surrogates, which \<open>int()\<close> rejects).
\<close>

definition is_cont :: "nat \<Rightarrow> bool" where
  "is_cont b = (0x80 \<le> b \<and> b \<le> 0xBF)"

fun utf8_decode :: "nat list \<Rightarrow> nat list option" where
  "utf8_decode [] = Some []"
| "utf8_decode (b # bs) =
     (if b < 0x80 then map_option ((#) b) (utf8_decode bs)
      else if 0xC2 \<le> b \<and> b \<le> 0xDF then
        (case bs of
           c1 # r \<Rightarrow>
             if is_cont c1
             then map_option ((#) ((b - 0xC0) * 64 + (c1 - 0x80))) (utf8_decode r)
             else None
         | _ \<Rightarrow> None)
      else if 0xE0 \<le> b \<and> b \<le> 0xEF then
        (case bs of
           c1 # c2 # r \<Rightarrow>
             if (if b = 0xE0 then 0xA0 \<le> c1 \<and> c1 \<le> 0xBF
                 else if b = 0xED then 0x80 \<le> c1 \<and> c1 \<le> 0x9F
                 else is_cont c1) \<and> is_cont c2
             then map_option ((#) ((b - 0xE0) * 4096 + (c1 - 0x80) * 64 + (c2 - 0x80)))
                    (utf8_decode r)
             else None
         | _ \<Rightarrow> None)
      else if 0xF0 \<le> b \<and> b \<le> 0xF4 then
        (case bs of
           c1 # c2 # c3 # r \<Rightarrow>
             if (if b = 0xF0 then 0x90 \<le> c1 \<and> c1 \<le> 0xBF
                 else if b = 0xF4 then 0x80 \<le> c1 \<and> c1 \<le> 0x8F
                 else is_cont c1) \<and> is_cont c2 \<and> is_cont c3
             then map_option
                    ((#) ((b - 0xF0) * 262144 + (c1 - 0x80) * 4096 + (c2 - 0x80) * 64 +
                          (c3 - 0x80)))
                    (utf8_decode r)
             else None
         | _ \<Rightarrow> None)
      else None)"

text \<open>
  Before it parses, \<open>int()\<close> replaces every white-space character beyond ASCII by a
  space and every decimal digit of another script by its ASCII digit; any other character
  beyond ASCII makes the text invalid. The white-space characters and the decimal digits
  are those of Unicode 14.0 (CPython 3.11); the digits come in runs of ten, listed by
  their zeros.
\<close>

definition unicode_space :: "nat \<Rightarrow> bool" where
  "unicode_space cp =
     (cp \<in> set [0x85, 0xA0, 0x1680, 0x2028, 0x2029, 0x202F, 0x205F, 0x3000] \<or>
      (0x2000 \<le> cp \<and> cp \<le> 0x200A))"

definition decimal_zeros :: "nat list" where
  "decimal_zeros =
     [0x30, 0x660, 0x6F0, 0x7C0, 0x966, 0x9E6, 0xA66, 0xAE6,
      0xB66, 0xBE6, 0xC66, 0xCE6, 0xD66, 0xDE6, 0xE50, 0xED0,
      0xF20, 0x1040, 0x1090, 0x17E0, 0x1810, 0x1946, 0x19D0, 0x1A80,
      0x1A90, 0x1B50, 0x1BB0, 0x1C40, 0x1C50, 0xA620, 0xA8D0, 0xA900,
      0xA9D0, 0xA9F0, 0xAA50, 0xABF0, 0xFF10, 0x104A0, 0x10D30, 0x11066,
      0x110F0, 0x11136, 0x111D0, 0x112F0, 0x11450, 0x114D0, 0x11650, 0x116C0,
      0x11730, 0x118E0, 0x11950, 0x11C50, 0x11D50, 0x11DA0, 0x16A60, 0x16AC0,
      0x16B50, 0x1D7CE, 0x1D7D8, 0x1D7E2, 0x1D7EC, 0x1D7F6, 0x1E140, 0x1E2F0,
      0x1E950, 0x1FBF0]"

definition unicode_decimal :: "nat \<Rightarrow> nat option" where
  "unicode_decimal cp =
     (case filter (\<lambda>z. z \<le> cp \<and> cp < z + 10) decimal_zeros of
        [] \<Rightarrow> None
      | z # _ \<Rightarrow> Some (cp - z))"

definition to_ascii :: "nat \<Rightarrow> char option" where
  "to_ascii cp =
     (if cp < 0x80 then Some (char_of cp)
      else if unicode_space cp then Some CHR '' ''
      else map_option digit_char (unicode_decimal cp))"

text \<open>
  \<open>int(s)\<close> of a command-line argument \<open>s\<close>, given as its UTF-8 bytes. \<open>None\<close> is the
  \<open>ValueError\<close> Python raises.
\<close>

definition py_int :: "string \<Rightarrow> int option" where
  "py_int s =
     (case utf8_decode (map of_char s) of
        None \<Rightarrow> None
      | Some cps \<Rightarrow>
          (case those (map to_ascii cps) of
             None \<Rightarrow> None
           | Some t \<Rightarrow> parse_ascii t))"

text \<open>\<open>needle in hay\<close> on strings: a contiguous occurrence.\<close>

fun starts_with :: "string \<Rightarrow> string \<Rightarrow> bool" where
  "starts_with [] hay = True"
| "starts_with (n # ns) [] = False"
| "starts_with (n # ns) (h # hs) = (n = h \<and> starts_with ns hs)"

fun contains :: "string \<Rightarrow> string \<Rightarrow> bool" where
  "contains needle [] = (needle = [])"
| "contains needle (h # hs) = (starts_with needle (h # hs) \<or> contains needle hs)"

section \<open>The request handler \<open>DSPTestHandler\<close>\<close>

type_synonym header = "string \<times> string"

text \<open>
  A request as the library has parsed it: \<open>request_version\<close> is \<open>HTTP/0.9\<close> for a
  request line without a version, such as \<open>GET /test-page.html\<close>.
\<close>

record request =
  command :: string
  path :: string
  request_version :: string
  requestline :: string

text \<open>
  What a handler writes before the body of a response: a status line, header lines and
  the blank line that ends the header block.
\<close>

datatype line = Status_line nat | Header string string | End_of_headers

text \<open>
  The handler object, as far as the script's overrides read or write it: the serving
  root given to the base constructor, the request, the headers buffered by
  \<open>send_header\<close> and the header lines already written to the client.
\<close>

record handler =
  directory :: string
  req :: request
  headers_buffer :: "line list"
  wfile :: "line list"

text \<open>The process state the script reads: its current working directory.\<close>

record process =
  cwd :: string

definition getcwd :: "process \<Rightarrow> string" where
  "getcwd p = cwd p"

text \<open>
  \<open>__init__\<close> runs once per request and hands \<open>os.getcwd()\<close>, read at that moment, to
  the base class as \<open>directory\<close>.
\<close>

definition DSPTestHandler_init :: "process \<Rightarrow> request \<Rightarrow> handler" where
  "DSPTestHandler_init p r =
     \<lparr>directory = getcwd p, req = r, headers_buffer = [], wfile = []\<rparr>"

text \<open>
  The methods of the base class \<open>BaseHTTPRequestHandler\<close> (\<open>http/server.py\<close>) that
  build the header block. Each of them does so only when the request is not HTTP/0.9: the
  response to such a request is the body alone. \<open>send_response_only\<close> buffers the
  status line, \<open>send_header\<close> buffers a header, the base \<open>end_headers\<close> buffers the
  blank line and writes the buffer to the output stream.
\<close>

definition send_response_only :: "nat \<Rightarrow> handler \<Rightarrow> handler" where
  "send_response_only code h =
     (if request_version (req h) \<noteq> ''HTTP/0.9''
      then h\<lparr>headers_buffer := headers_buffer h @ [Status_line code]\<rparr>
      else h)"

definition send_header :: "string \<Rightarrow> string \<Rightarrow> handler \<Rightarrow> handler" where
  "send_header keyword v h =
     (if request_version (req h) \<noteq> ''HTTP/0.9''
      then h\<lparr>headers_buffer := headers_buffer h @ [Header keyword v]\<rparr>
      else h)"

definition flush_headers :: "handler \<Rightarrow> handler" where
  "flush_headers h = h\<lparr>wfile := wfile h @ headers_buffer h, headers_buffer := []\<rparr>"

definition super_end_headers :: "handler \<Rightarrow> handler" where
  "super_end_headers h =
     (if request_version (req h) \<noteq> ''HTTP/0.9''
      then flush_headers (h\<lparr>headers_buffer := headers_buffer h @ [End_of_headers]\<rparr>)
      else h)"

text \<open>The override: three fixed headers, then the base method.\<close>

definition end_headers :: "handler \<Rightarrow> handler" where
  "end_headers h =
     super_end_headers
       (send_header ''Access-Control-Allow-Headers'' ''Content-Type''
         (send_header ''Access-Control-Allow-Methods'' ''GET, POST, OPTIONS''
           (send_header ''Access-Control-Allow-Origin'' ''*'' h)))"

definition cors_headers :: "line list" where
  "cors_headers =
     [Header ''Access-Control-Allow-Origin'' ''*'',
      Header ''Access-Control-Allow-Methods'' ''GET, POST, OPTIONS'',
      Header ''Access-Control-Allow-Headers'' ''Content-Type'']"

subsection \<open>Logging\<close>

text \<open>
  The base class calls \<open>log_message(format, *args)\<close> with a \<open>%\<close>-format and its
  arguments. A format is modelled as its pieces, literal text and the conversions
  \<open>%s\<close> and \<open>%d\<close>; arguments are strings or integers. \<open>percent\<close> is \<open>format % args\<close>,
  with the \<open>TypeError\<close>s of a wrong argument count or kind.
\<close>

datatype pyval = Str string | Num int

datatype piece = Lit string | Conv_s | Conv_d

fun str_val :: "pyval \<Rightarrow> string" where
  "str_val (Str s) = s"
| "str_val (Num i) = str_int i"

fun percent :: "piece list \<Rightarrow> pyval list \<Rightarrow> exn + string" where
  "percent [] [] = Inr []"
| "percent [] (a # as) =
     Inl (Exception ''TypeError'' ''not all arguments converted during string formatting'')"
| "percent (Lit t # ps) as =
     (case percent ps as of Inl e \<Rightarrow> Inl e | Inr m \<Rightarrow> Inr (t @ m))"
| "percent (Conv_s # ps) [] =
     Inl (Exception ''TypeError'' ''not enough arguments for format string'')"
| "percent (Conv_s # ps) (a # as) =
     (case percent ps as of Inl e \<Rightarrow> Inl e | Inr m \<Rightarrow> Inr (str_val a @ m))"
| "percent (Conv_d # ps) [] =
     Inl (Exception ''TypeError'' ''not enough arguments for format string'')"
| "percent (Conv_d # ps) (Str s # as) =
     Inl (Exception ''TypeError'' ''%d format: a real number is required, not str'')"
| "percent (Conv_d # ps) (Num i # as) =
     (case percent ps as of Inl e \<Rightarrow> Inl e | Inr m \<Rightarrow> Inr (str_int i @ m))"

text \<open>
  The \<open>log_message\<close> of the base class, which the script's override replaces. Its line
  on standard error is the client address, the time of the entry and the message, in which
  every control character (below \<open>0x20\<close>, and \<open>0x7F\<close> to \<open>0x9F\<close>) is written as
  \<open>\xNN\<close> and every backslash is doubled. In UTF-8 the characters \<open>0x80\<close> to \<open>0x9F\<close>
  are the byte \<open>0xC2\<close> followed by the byte of that value.
\<close>

definition hex_digit :: "nat \<Rightarrow> char" where
  "hex_digit d = ''0123456789abcdef'' ! d"

definition hex_escape :: "nat \<Rightarrow> string" where
  "hex_escape c = [CHR 0x5C, CHR ''x'', hex_digit (c div 16), hex_digit (c mod 16)]"

definition escape_char :: "char \<Rightarrow> string" where
  "escape_char c =
     (if (of_char c :: nat) < 0x20 \<or> (of_char c :: nat) = 0x7F then hex_escape (of_char c)
      else if c = CHR 0x5C then [CHR 0x5C, CHR 0x5C]
      else [c])"

fun escape_controls :: "string \<Rightarrow> string" where
  "escape_controls [] = []"
| "escape_controls [c] = escape_char c"
| "escape_controls (c # d # cs) =
     (if c = CHR 0xC2 \<and> (0x80 :: nat) \<le> of_char d \<and> (of_char d :: nat) \<le> 0x9F
      then hex_escape (of_char d) @ escape_controls cs
      else escape_char c @ escape_controls (d # cs))"

definition super_log_message ::
  "string \<Rightarrow> string \<Rightarrow> piece list \<Rightarrow> pyval list \<Rightarrow> exn + string" where
  "super_log_message address date format args =
     (case percent format args of
        Inl e \<Rightarrow> Inl e
      | Inr m \<Rightarrow> Inr (address @ '' - - ['' @ date @ ''] '' @ escape_controls m))"

section \<open>The run of the script as a trace\<close>

text \<open>
  What the script does to the outside world, in order: a line printed on standard output,
  the construction of the listening \<open>TCPServer\<close> on a port, the call of
  \<open>webbrowser.open\<close>, the entry into \<open>serve_forever\<close>, per request the base
  constructor's \<open>directory\<close> and the response (the header block written, which is
  empty for an HTTP/0.9 request, and the body) or the exception that escaped the handler,
  and the closing of the server socket.
\<close>

datatype event =
    Print string
  | TCPServer int
  | Webbrowser_open string
  | Serve_forever
  | Handler_init string
  | Response "line list" string
  | Handler_error exn
  | Server_close

text \<open>The override of \<open>log_message\<close>: one printed line, the prefix and \<open>format % args\<close>.\<close>

definition log_message :: "piece list \<Rightarrow> pyval list \<Rightarrow> exn + event" where
  "log_message format args =
     (case percent format args of
        Inl e \<Rightarrow> Inl e
      | Inr m \<Rightarrow> Inr (Print (globe @ '' '' @ m)))"

text \<open>
  What the standard library's static-file handler decides for a request, given the
  serving root: the \<open>log_message\<close> calls it makes, and the status, the headers it sends
  with \<open>send_header\<close> and the body of its response.
\<close>

record reply =
  log_calls :: "(piece list \<times> pyval list) list"
  status :: nat
  headers :: "header list"
  body :: string

text \<open>
  The environment of a run: which paths exist relative to the working directory, what
  constructing the server on a port raises (if anything), what \<open>webbrowser.open\<close>
  raises (if anything), the requests that arrive, the library's reply to each, and the
  exception that ends \<open>serve_forever\<close> (\<open>None\<close>: the loop is never interrupted).
\<close>

record env =
  path_exists :: "string \<Rightarrow> bool"
  tcp_server :: "int \<Rightarrow> exn option"
  webbrowser_open :: "string \<Rightarrow> exn option"
  requests :: "request list"
  library :: "string \<Rightarrow> request \<Rightarrow> reply"
  interrupt :: "exn option"

fun run_logs :: "(piece list \<times> pyval list) list \<Rightarrow> event list \<times> exn option" where
  "run_logs [] = ([], None)"
| "run_logs ((f, a) # ls) =
     (case log_message f a of
        Inl e \<Rightarrow> ([], Some e)
      | Inr ev \<Rightarrow> (case run_logs ls of (evs, r) \<Rightarrow> (ev # evs, r)))"

definition send_headers :: "header list \<Rightarrow> handler \<Rightarrow> handler" where
  "send_headers hs h = foldl (\<lambda>h' (k, v). send_header k v h') h hs"

text \<open>
  One request: a fresh handler, the library's log calls through the override of
  \<open>log_message\<close>, the library's status line and headers, and the header block ended by
  the override of \<open>end_headers\<close>. The script never changes the working directory, so the process
  state comes back as it went in.
\<close>

definition handle :: "env \<Rightarrow> process \<Rightarrow> request \<Rightarrow> event list \<times> process" where
  "handle env p r =
     (let h = DSPTestHandler_init p r;
          rep = library env (directory h) r
      in case run_logs (log_calls rep) of
           (lines, Some e) \<Rightarrow> (Handler_init (directory h) # lines @ [Handler_error e], p)
         | (lines, None) \<Rightarrow>
             (Handler_init (directory h) # lines @
                [Response
                   (wfile (end_headers
                      (send_headers (headers rep) (send_response_only (status rep) h))))
                   (body rep)], p))"

fun serve :: "env \<Rightarrow> process \<Rightarrow> request list \<Rightarrow> event list \<times> process" where
  "serve env p [] = ([], p)"
| "serve env p (r # rs) =
     (case handle env p r of
        (evs, p') \<Rightarrow> (case serve env p' rs of (evs', p'') \<Rightarrow> (evs @ evs', p'')))"

datatype result = Returned | Raised exn | Forever

definition test_url :: "int \<Rightarrow> string" where
  "test_url port = ''http://localhost:'' @ str_int port @ ''/test-page.html''"

definition banner :: "int \<Rightarrow> event list" where
  "banner port =
     [Print (rocket @ '' DSP Extension Test Server Starting...''),
      Print (antenna @ '' Server running at: http://localhost:'' @ str_int port),
      Print (test_tube @ '' Test page: '' @ test_url port),
      Print (memo @ '' Your HTML file: Place your DSP HTML file in this directory''),
      Print [],
      Print (wrench @ '' Extension Setup:''),
      Print ''1. Load your extension in the browser'',
      Print ''2. Open the test URL above'',
      Print ''3. Extension should automatically activate and highlight mismatches'',
      Print [],
      Print (stop_button @ ''  Press Ctrl+C to stop the server''),
      Print []]"

text \<open>
  The inner \<open>try\<close>: the bare \<open>except\<close> catches whatever \<open>webbrowser.open\<close> raises. The
  note printed then is a plain string, not an f-string.
\<close>

definition launch_browser :: "env \<Rightarrow> int \<Rightarrow> event list" where
  "launch_browser env port =
     (case webbrowser_open env (test_url port) of
        None \<Rightarrow>
          [Webbrowser_open (test_url port),
           Print (globe @ '' Opening test page in browser...'')]
      | Some e \<Rightarrow>
          [Webbrowser_open (test_url port),
           Print (info_sign @
             ''  Manually open http://localhost:{port}/test-page.html in your browser'')])"

text \<open>
  The body of the outer \<open>try\<close>: the \<open>with\<close> block around the server. An exception of
  the constructor leaves before the block is entered; one that ends \<open>serve_forever\<close>
  closes the server on the way out.
\<close>

definition serve_block :: "env \<Rightarrow> process \<Rightarrow> int \<Rightarrow> event list \<times> result" where
  "serve_block env p port =
     (case tcp_server env port of
        Some e \<Rightarrow> ([TCPServer port], Raised e)
      | None \<Rightarrow>
          (let pre = TCPServer port # banner port @ launch_browser env port @
                     Serve_forever # fst (serve env p (requests env))
           in case interrupt env of
                None \<Rightarrow> (pre, Forever)
              | Some e \<Rightarrow> (pre @ [Server_close], Raised e)))"

text \<open>The two \<open>except\<close> clauses of the outer \<open>try\<close>; any other exception goes on.\<close>

fun except_clauses :: "int \<Rightarrow> result \<Rightarrow> event list \<times> result" where
  "except_clauses port (Raised (OSError m)) =
     (if contains ''Address already in use'' m
      then ([Print (cross_mark @ '' Port '' @ str_int port @ '' is already in use''),
             Print (light_bulb @ '' Try a different port: python local-test-server.py '' @
                    str_int (port + 1))], Returned)
      else ([Print (cross_mark @ '' Error starting server: '' @ m)], Returned))"
| "except_clauses port (Raised KeyboardInterrupt) =
     ([Print (CHR 0x0A # stop_button @ ''  Server stopped by user'')], Returned)"
| "except_clauses port r = ([], r)"

definition start_test_server :: "env \<Rightarrow> process \<Rightarrow> int \<Rightarrow> event list \<times> result" where
  "start_test_server env p port =
     (if \<not> path_exists env ''test-page.html'' then
        ([Print (cross_mark @ '' test-page.html not found in current directory''),
          Print (light_bulb @ '' Make sure you'' @ [CHR 0x27] @
                 ''re running this from the project root directory'')],
         Returned)
      else
        (case serve_block env p port of
           (tr, r) \<Rightarrow> (case except_clauses port r of (tr', r') \<Rightarrow> (tr @ tr', r'))))"

text \<open>
  How the process ends: with an exit status, with the traceback of an uncaught exception
  (exit status 1), or not at all while the server keeps serving.
\<close>

datatype ending = Exit int | Traceback exn | Serving

fun script_end :: "result \<Rightarrow> ending" where
  "script_end Returned = Exit 0"
| "script_end (Raised e) = Traceback e"
| "script_end Forever = Serving"

text \<open>The \<open>__main__\<close> block; \<open>argv\<close> is \<open>sys.argv\<close>, the script's name first.\<close>

definition main :: "env \<Rightarrow> process \<Rightarrow> string list \<Rightarrow> event list \<times> ending" where
  "main env p argv =
     (if length argv > 1 then
        (case py_int (argv ! 1) of
           None \<Rightarrow> ([Print (cross_mark @ '' Invalid port number'')], Exit 1)
         | Some port \<Rightarrow>
             (case start_test_server env p port of (tr, r) \<Rightarrow> (tr, script_end r)))
      else
        (case start_test_server env p 8000 of (tr, r) \<Rightarrow> (tr, script_end r)))"

section \<open>An example environment\<close>

text \<open>
  A concrete environment for running the model. The socket layer behaves as CPython's
  does on a POSIX system: binding a port outside \<open>0..65535\<close> raises
  \<open>OverflowError\<close>, binding a port that is taken raises \<open>OSError\<close> with the text of
  \<open>EADDRINUSE\<close>. The library serves one file, \<open>test-page.html\<close> with the content
  \<open>hello\<close>, answers 404 for any other path and 501 for any method but \<open>GET\<close>,
  and logs with the formats of \<open>log_request\<close> and \<open>log_error\<close>.
\<close>

definition posix_tcp_server :: "int list \<Rightarrow> int \<Rightarrow> exn option" where
  "posix_tcp_server busy port =
     (if port < 0 \<or> 65535 < port then Some (OverflowError ''bind(): port must be 0-65535.'')
      else if port \<in> set busy then Some (OSError ''[Errno 98] Address already in use'')
      else None)"

definition log_request_format :: "piece list" where
  "log_request_format = [Lit [CHR 0x22], Conv_s, Lit [CHR 0x22, CHR 0x20], Conv_s, Lit '' '', Conv_s]"

definition log_error_format :: "piece list" where
  "log_error_format = [Lit ''code '', Conv_d, Lit '', message '', Conv_s]"

definition static_files :: "string \<Rightarrow> request \<Rightarrow> reply" where
  "static_files root r =
     (if command r \<noteq> ''GET'' then
        \<lparr>log_calls = [(log_error_format, [Num 501, Str ''Unsupported method'']),
                      (log_request_format, [Str (requestline r), Str ''501'', Str ''-''])],
         status = 501,
         headers = [(''Content-Type'', ''text/html;charset=utf-8'')],
         body = ''Unsupported method''\<rparr>
      else if path r = ''/test-page.html'' then
        \<lparr>log_calls = [(log_request_format, [Str (requestline r), Str ''200'', Str ''-''])],
         status = 200,
         headers = [(''Content-type'', ''text/html''), (''Content-Length'', ''5'')],
         body = ''hello''\<rparr>
      else
        \<lparr>log_calls = [(log_error_format, [Num 404, Str ''File not found'']),
                      (log_request_format, [Str (requestline r), Str ''404'', Str ''-''])],
         status = 404,
         headers = [(''Content-Type'', ''text/html;charset=utf-8'')],
         body = ''File not found''\<rparr>)"

definition example_env :: env where
  "example_env =
     \<lparr>path_exists = (\<lambda>f. f = ''test-page.html''),
      tcp_server = posix_tcp_server [9000],
      webbrowser_open = (\<lambda>u. None),
      requests = [\<lparr>command = ''GET'', path = ''/test-page.html'',
                    request_version = ''HTTP/1.1'',
                    requestline = ''GET /test-page.html HTTP/1.1''\<rparr>,
                  \<lparr>command = ''GET'', path = ''/missing.html'',
                    request_version = ''HTTP/1.1'',
                    requestline = ''GET /missing.html HTTP/1.1''\<rparr>,
                  \<lparr>command = ''POST'', path = ''/test-page.html'',
                    request_version = ''HTTP/1.0'',
                    requestline = ''POST /test-page.html HTTP/1.0''\<rparr>],
      library = static_files,
      interrupt = Some KeyboardInterrupt\<rparr>"


text \<open>
  The socket layer on Windows: a taken port raises \<open>OSError\<close> too, with the text of
  \<open>WSAEADDRINUSE\<close>.
\<close>

definition winsock_tcp_server :: "int list \<Rightarrow> int \<Rightarrow> exn option" where
  "winsock_tcp_server busy port =
     (if port < 0 \<or> 65535 < port then Some (OverflowError ''bind(): port must be 0-65535.'')
      else if port \<in> set busy then
        Some (OSError (''[WinError 10048] Only one usage of each socket address '' @
                       ''(protocol/network address/port) is normally permitted''))
      else None)"

definition example_process :: process where
  "example_process = \<lparr>cwd = ''/home/dev/dsp-extension''\<rparr>"

section \<open>Properties of the handler and of the trace\<close>

lemma handle_process: "snd (handle env p r) = p"
  by (auto simp: handle_def Let_def split: prod.splits option.splits)

lemma serve_process: "snd (serve env p rs) = p"
proof (induction rs arbitrary: p)
  case Nil
  show ?case by simp
next
  case (Cons r rs)
  obtain evs p' where h: "handle env p r = (evs, p')" by (cases "handle env p r")
  with handle_process[of env p r] have "p' = p" by simp
  with h Cons.IH[of p] show ?case by (auto split: prod.splits)
qed

lemma serve_trace: "fst (serve env p rs) = concat (map (\<lambda>r. fst (handle env p r)) rs)"
proof (induction rs)
  case Nil
  show ?case by simp
next
  case (Cons r rs)
  obtain evs p' where h: "handle env p r = (evs, p')" by (cases "handle env p r")
  with handle_process[of env p r] have "p' = p" by simp
  with h Cons.IH show ?case by (auto split: prod.splits)
qed

lemma utf8_decode_ascii:
  "\<forall>b \<in> set bs. b < 0x80 \<Longrightarrow> utf8_decode bs = Some bs"
  by (induction bs) auto

lemma to_ascii_ascii:
  "\<forall>c \<in> set s. (of_char c :: nat) < 0x80 \<Longrightarrow>
   those (map to_ascii (map of_char s)) = Some s"
  by (induction s) (auto simp: to_ascii_def)

lemma py_int_ascii:
  assumes "\<forall>c \<in> set s. (of_char c :: nat) < 0x80"
  shows "py_int s = parse_ascii s"
proof -
  from assms have "\<forall>b \<in> set (map of_char s). (b :: nat) < 0x80" by simp
  then have "utf8_decode (map of_char s) = Some (map of_char s)" by (rule utf8_decode_ascii)
  with to_ascii_ascii[OF assms] show ?thesis by (simp add: py_int_def)
qed

lemma parse_unsigned_limit:
  "max_str_digits < length (filter is_digit s) \<Longrightarrow> parse_unsigned s = None"
  by (cases s) (auto simp: parse_unsigned_def split: option.splits)

lemma py_int_fullwidth_digits:
  "py_int [CHR 0xEF, CHR 0xBC, CHR 0x98, CHR 0xEF, CHR 0xBC, CHR 0x90,
           CHR 0xEF, CHR 0xBC, CHR 0x90, CHR 0xEF, CHR 0xBC, CHR 0x90] = Some 8000"
  by (simp add: py_int_def is_cont_def to_ascii_def unicode_space_def unicode_decimal_def
        decimal_zeros_def digit_char_def parse_ascii_def strip_def is_space_def
        parse_unsigned_def is_digit_def digit_val_def max_str_digits_def)

lemma py_int_digit_limit: "py_int (replicate 4301 CHR ''1'') = None"
proof -
  have d: "is_digit CHR ''1''" "\<not> is_space CHR ''1''"
    by (simp_all add: is_digit_def is_space_def)
  have "\<forall>c \<in> set (replicate 4301 CHR ''1''). (of_char c :: nat) < 0x80" by simp
  then have "py_int (replicate 4301 CHR ''1'') = parse_ascii (replicate 4301 CHR ''1'')"
    by (rule py_int_ascii)
  moreover have "strip (replicate 4301 CHR ''1'') = CHR ''1'' # replicate 4300 CHR ''1''"
    using d by (simp add: strip_def replicate_Suc[symmetric] del: replicate_Suc)
  moreover have "parse_unsigned (CHR ''1'' # replicate 4300 CHR ''1'') = None"
    by (rule parse_unsigned_limit) (simp add: d max_str_digits_def)
  ultimately show ?thesis by (simp add: parse_ascii_def)
qed

lemma main_fullwidth_port:
  "main env p [prog, [CHR 0xEF, CHR 0xBC, CHR 0x98, CHR 0xEF, CHR 0xBC, CHR 0x90,
                      CHR 0xEF, CHR 0xBC, CHR 0x90, CHR 0xEF, CHR 0xBC, CHR 0x90]] =
     (fst (start_test_server env p 8000), script_end (snd (start_test_server env p 8000)))"
  by (simp add: main_def py_int_fullwidth_digits case_prod_beta)

lemma main_digit_limit:
  "main env p [prog, replicate 4301 CHR ''1''] =
     ([Print (cross_mark @ '' Invalid port number'')], Exit 1)"
  by (simp add: main_def py_int_digit_limit)







lemma run_logs_prints:
  "run_logs ls = (evs, r) \<Longrightarrow> ev \<in> set evs \<Longrightarrow>
     \<exists>f a m. (f, a) \<in> set ls \<and> percent f a = Inr m \<and> ev = Print (globe @ '' '' @ m)"
proof (induction ls arbitrary: evs r)
  case Nil
  then show ?case by simp
next
  case (Cons c ls)
  obtain f a where c: "c = (f, a)" by (cases c)
  show ?case
  proof (cases "log_message f a")
    case (Inl e)
    with Cons.prems c show ?thesis by simp
  next
    case (Inr ev0)
    obtain evs' r' where rl: "run_logs ls = (evs', r')" by (cases "run_logs ls")
    from Inr obtain m where m: "percent f a = Inr m" "ev0 = Print (globe @ '' '' @ m)"
      by (auto simp: log_message_def split: sum.splits)
    from Cons.prems c Inr rl have "evs = ev0 # evs'" by simp
    with Cons.prems(2) consider "ev = ev0" | "ev \<in> set evs'" by auto
    then show ?thesis
    proof cases
      case 1
      with m c show ?thesis by auto
    next
      case 2
      from Cons.IH[OF rl 2] show ?thesis by auto
    qed
  qed
qed



lemma handle_print:
  assumes "Print l \<in> set (fst (handle env p r))"
  shows "\<exists>f a m. (f, a) \<in> set (log_calls (library env (cwd p) r)) \<and>
            percent f a = Inr m \<and> l = globe @ '' '' @ m"
proof -
  let ?rep = "library env (cwd p) r"
  obtain lines err where rl: "run_logs (log_calls ?rep) = (lines, err)"
    by (cases "run_logs (log_calls ?rep)")
  from assms rl have "Print l \<in> set lines"
    by (cases err) (auto simp: handle_def Let_def DSPTestHandler_init_def getcwd_def)
  from run_logs_prints[OF rl this] show ?thesis by auto
qed








lemma serve_event_request:
  "ev \<in> set (fst (serve env p rs)) \<Longrightarrow> \<exists>r \<in> set rs. ev \<in> set (fst (handle env p r))"
  by (auto simp: serve_trace)

section \<open>The claims\<close>

lemma example_serve:
  "fst (serve example_env example_process (requests example_env)) =
     [Handler_init ''/home/dev/dsp-extension'',
      Print (globe @ '' '' @ [CHR 0x22] @ ''GET /test-page.html HTTP/1.1'' @ [CHR 0x22] @
             '' 200 -''),
      Response
        ([Status_line 200, Header ''Content-type'' ''text/html'',
          Header ''Content-Length'' ''5''] @ cors_headers @ [End_of_headers])
        ''hello'',
      Handler_init ''/home/dev/dsp-extension'',
      Print (globe @ '' code 404, message File not found''),
      Print (globe @ '' '' @ [CHR 0x22] @ ''GET /missing.html HTTP/1.1'' @ [CHR 0x22] @
             '' 404 -''),
      Response
        ([Status_line 404, Header ''Content-Type'' ''text/html;charset=utf-8''] @
         cors_headers @ [End_of_headers])
        ''File not found'',
      Handler_init ''/home/dev/dsp-extension'',
      Print (globe @ '' code 501, message Unsupported method''),
      Print (globe @ '' '' @ [CHR 0x22] @ ''POST /test-page.html HTTP/1.0'' @ [CHR 0x22] @
             '' 501 -''),
      Response
        ([Status_line 501, Header ''Content-Type'' ''text/html;charset=utf-8''] @
         cors_headers @ [End_of_headers])
        ''Unsupported method'']"
  by (simp add: example_env_def example_process_def str_int_def str_nat.simps digit_char_def
        handle_def Let_def DSPTestHandler_init_def getcwd_def static_files_def log_message_def
        log_request_format_def log_error_format_def end_headers_def super_end_headers_def
        flush_headers_def send_header_def send_headers_def send_response_only_def
        cors_headers_def)



lemma example_start:
  "start_test_server example_env example_process 8000 =
     (TCPServer 8000 # banner 8000 @
      [Webbrowser_open (test_url 8000),
       Print (globe @ '' Opening test page in browser...''),
       Serve_forever] @ fst (serve example_env example_process (requests example_env)) @
      [Server_close,
       Print (CHR 0x0A # stop_button @ ''  Server stopped by user'')], Returned)"
  by (simp add: start_test_server_def serve_block_def launch_browser_def Let_def
        example_env_def posix_tcp_server_def)





text \<open>
  Claim C2. When \<open>test-page.html\<close> does not exist in the working directory,
  \<open>start_test_server\<close> prints the problem and the hint and returns; the trace holds no
  server construction on any port and no entry into the serve loop.
\<close>

theorem missing_marker_file_no_socket:
  assumes "\<not> path_exists env ''test-page.html''"
  shows "start_test_server env p port =
           ([Print (cross_mark @ '' test-page.html not found in current directory''),
             Print (light_bulb @ '' Make sure you'' @ [CHR 0x27] @
                    ''re running this from the project root directory'')], Returned) \<and>
         (\<forall>q. TCPServer q \<notin> set (fst (start_test_server env p port))) \<and>
         Serve_forever \<notin> set (fst (start_test_server env p port))"
  using assms by (simp add: start_test_server_def)

theorem missing_marker_file_no_socket_witness:
  "\<not> path_exists (example_env\<lparr>path_exists := \<lambda>f. False\<rparr>) ''test-page.html'' \<and>
   start_test_server (example_env\<lparr>path_exists := \<lambda>f. False\<rparr>) example_process 9100 =
           ([Print (cross_mark @ '' test-page.html not found in current directory''),
             Print (light_bulb @ '' Make sure you'' @ [CHR 0x27] @
                    ''re running this from the project root directory'')], Returned) \<and>
   TCPServer 9100 \<notin> set (fst (start_test_server (example_env\<lparr>path_exists := \<lambda>f. False\<rparr>) example_process 9100))"
proof -
  have h: "\<not> path_exists (example_env\<lparr>path_exists := \<lambda>f. False\<rparr>) ''test-page.html''"
    by simp
  from h missing_marker_file_no_socket[OF h, of example_process 9100] show ?thesis by blast
qed

text \<open>
  Claim C3, as amended. When constructing the server on the requested port raises an
  \<open>OSError\<close> whose text contains \<open>Address already in use\<close>, start-up ends with a
  message that names the requested port and one that suggests \<open>port + 1\<close>; an
  \<open>OSError\<close> with any other text is reported with that text alone. In both cases the
  only server construction in the trace is the one on the requested port, and the serve
  loop is never entered.
\<close>

theorem address_in_use_message:
  assumes "path_exists env ''test-page.html''"
    and "tcp_server env port = Some (OSError m)"
  shows "(contains ''Address already in use'' m \<longrightarrow>
            start_test_server env p port =
              ([TCPServer port,
                Print (cross_mark @ '' Port '' @ str_int port @ '' is already in use''),
                Print (light_bulb @ '' Try a different port: python local-test-server.py '' @
                       str_int (port + 1))], Returned)) \<and>
         (\<not> contains ''Address already in use'' m \<longrightarrow>
            start_test_server env p port =
              ([TCPServer port, Print (cross_mark @ '' Error starting server: '' @ m)],
               Returned)) \<and>
         (\<forall>q. TCPServer q \<in> set (fst (start_test_server env p port)) \<longrightarrow> q = port) \<and>
         Serve_forever \<notin> set (fst (start_test_server env p port))"
  using assms by (simp add: start_test_server_def serve_block_def)

theorem address_in_use_message_witness:
  "path_exists example_env ''test-page.html'' \<and>
   tcp_server example_env 9000 = Some (OSError ''[Errno 98] Address already in use'') \<and>
   contains ''Address already in use'' ''[Errno 98] Address already in use'' \<and>
   start_test_server example_env example_process 9000 =
     ([TCPServer 9000,
       Print (cross_mark @ '' Port 9000 is already in use''),
       Print (light_bulb @ '' Try a different port: python local-test-server.py 9001'')],
      Returned) \<and>
   TCPServer 9001 \<notin> set (fst (start_test_server example_env example_process 9000))"
proof -
  have a: "path_exists example_env ''test-page.html''"
    by (simp add: example_env_def)
  have b: "tcp_server example_env 9000 = Some (OSError ''[Errno 98] Address already in use'')"
    by (simp add: example_env_def posix_tcp_server_def)
  have c: "contains ''Address already in use'' ''[Errno 98] Address already in use''"
    by simp
  have s: "str_int 9000 = ''9000''" "str_int (9000 + 1) = ''9001''"
    by (simp_all add: str_int_def str_nat.simps digit_char_def)
  from a b c address_in_use_message[OF a b, of example_process] s show ?thesis by auto
qed

text \<open>
  The claim as first stated, for every port that is already bound, fails where the
  socket layer reports a taken port with another text: on Windows the message printed for
  the taken port 9000 names neither 9000 nor 9001.
\<close>

theorem taken_port_on_windows_not_named:
  "9000 \<in> set [9000 :: int] \<and>
   start_test_server (example_env\<lparr>tcp_server := winsock_tcp_server [9000]\<rparr>)
       example_process 9000 =
     ([TCPServer 9000,
       Print (cross_mark @ '' Error starting server: [WinError 10048] Only one usage '' @
              ''of each socket address (protocol/network address/port) is normally permitted'')],
      Returned) \<and>
   \<not> contains ''9000''
       (cross_mark @ '' Error starting server: [WinError 10048] Only one usage '' @
        ''of each socket address (protocol/network address/port) is normally permitted'') \<and>
   \<not> contains ''9001''
       (cross_mark @ '' Error starting server: [WinError 10048] Only one usage '' @
        ''of each socket address (protocol/network address/port) is normally permitted'')"
  by (simp add: start_test_server_def serve_block_def example_env_def winsock_tcp_server_def
        cross_mark_def)

text \<open>
  Claim C4. When the first command-line argument is not parseable as an integer, the
  program prints one error line and exits with status 1, and nothing else happens; with no
  argument the server is started on port 8000.
\<close>

theorem invalid_port_argument:
  "(1 < length argv \<and> py_int (argv ! 1) = None \<longrightarrow>
      main env p argv = ([Print (cross_mark @ '' Invalid port number'')], Exit 1)) \<and>
   (length argv \<le> 1 \<longrightarrow>
      main env p argv = (fst (start_test_server env p 8000),
                         script_end (snd (start_test_server env p 8000))))"
proof (intro conjI impI)
  assume "1 < length argv \<and> py_int (argv ! 1) = None"
  then show "main env p argv = ([Print (cross_mark @ '' Invalid port number'')], Exit 1)"
    by (simp add: main_def)
next
  assume "length argv \<le> 1"
  then show "main env p argv = (fst (start_test_server env p 8000),
                               script_end (snd (start_test_server env p 8000)))"
    by (simp add: main_def case_prod_beta)
qed

theorem invalid_port_argument_witness:
  "py_int ''80a'' = None \<and>
   main example_env example_process [''local-test-server.py'', ''80a''] =
     ([Print (cross_mark @ '' Invalid port number'')], Exit 1) \<and>
   main example_env example_process [''local-test-server.py''] =
     (fst (start_test_server example_env example_process 8000), Exit 0)"
proof -
  have n: "py_int ''80a'' = None"
    by (simp add: py_int_ascii parse_ascii_def strip_def is_space_def parse_unsigned_def
          is_digit_def digit_val_def max_str_digits_def)
  from n invalid_port_argument[of "[''local-test-server.py'', ''80a'']" example_env example_process]
    invalid_port_argument[of "[''local-test-server.py'']" example_env example_process]
  show ?thesis by (simp add: example_start)
qed

text \<open>
  Claim C5. On each start-up failure path \<open>start_test_server\<close> prints its message and
  returns normally, and the process ends with exit status 0: the problem and the hint for
  a missing marker file, the port and the suggestion of \<open>port + 1\<close> for an address in
  use, the text of the error for any other \<open>OSError\<close> of the server construction.
\<close>

theorem startup_failure_message_then_exit_status_zero:
  assumes "if 1 < length argv then py_int (argv ! 1) = Some port else port = 8000"
  shows "(\<not> path_exists env ''test-page.html'' \<longrightarrow>
            start_test_server env p port =
              ([Print (cross_mark @ '' test-page.html not found in current directory''),
                Print (light_bulb @ '' Make sure you'' @ [CHR 0x27] @
                       ''re running this from the project root directory'')], Returned) \<and>
            main env p argv =
              ([Print (cross_mark @ '' test-page.html not found in current directory''),
                Print (light_bulb @ '' Make sure you'' @ [CHR 0x27] @
                       ''re running this from the project root directory'')], Exit 0)) \<and>
         (path_exists env ''test-page.html'' \<and> tcp_server env port = Some (OSError m) \<and>
          contains ''Address already in use'' m \<longrightarrow>
            start_test_server env p port =
              ([TCPServer port,
                Print (cross_mark @ '' Port '' @ str_int port @ '' is already in use''),
                Print (light_bulb @ '' Try a different port: python local-test-server.py '' @
                       str_int (port + 1))], Returned) \<and>
            main env p argv =
              ([TCPServer port,
                Print (cross_mark @ '' Port '' @ str_int port @ '' is already in use''),
                Print (light_bulb @ '' Try a different port: python local-test-server.py '' @
                       str_int (port + 1))], Exit 0)) \<and>
         (path_exists env ''test-page.html'' \<and> tcp_server env port = Some (OSError m) \<and>
          \<not> contains ''Address already in use'' m \<longrightarrow>
            start_test_server env p port =
              ([TCPServer port, Print (cross_mark @ '' Error starting server: '' @ m)],
               Returned) \<and>
            main env p argv =
              ([TCPServer port, Print (cross_mark @ '' Error starting server: '' @ m)],
               Exit 0))"
proof -
  from assms have m: "main env p argv =
      (fst (start_test_server env p port), script_end (snd (start_test_server env p port)))"
    by (auto simp: main_def case_prod_beta split: if_splits)
  show ?thesis
  proof (intro conjI impI)
    assume "\<not> path_exists env ''test-page.html''"
    then show "start_test_server env p port =
              ([Print (cross_mark @ '' test-page.html not found in current directory''),
                Print (light_bulb @ '' Make sure you'' @ [CHR 0x27] @
                       ''re running this from the project root directory'')], Returned)"
      by (simp add: start_test_server_def)
    with m show "main env p argv =
              ([Print (cross_mark @ '' test-page.html not found in current directory''),
                Print (light_bulb @ '' Make sure you'' @ [CHR 0x27] @
                       ''re running this from the project root directory'')], Exit 0)"
      by simp
  next
    assume "path_exists env ''test-page.html'' \<and> tcp_server env port = Some (OSError m) \<and>
            contains ''Address already in use'' m"
    then show "start_test_server env p port =
              ([TCPServer port,
                Print (cross_mark @ '' Port '' @ str_int port @ '' is already in use''),
                Print (light_bulb @ '' Try a different port: python local-test-server.py '' @
                       str_int (port + 1))], Returned)"
      by (simp add: start_test_server_def serve_block_def)
    with m show "main env p argv =
              ([TCPServer port,
                Print (cross_mark @ '' Port '' @ str_int port @ '' is already in use''),
                Print (light_bulb @ '' Try a different port: python local-test-server.py '' @
                       str_int (port + 1))], Exit 0)"
      by simp
  next
    assume "path_exists env ''test-page.html'' \<and> tcp_server env port = Some (OSError m) \<and>
            \<not> contains ''Address already in use'' m"
    then show "start_test_server env p port =
              ([TCPServer port, Print (cross_mark @ '' Error starting server: '' @ m)],
               Returned)"
      by (simp add: start_test_server_def serve_block_def)
    with m show "main env p argv =
              ([TCPServer port, Print (cross_mark @ '' Error starting server: '' @ m)],
               Exit 0)"
      by simp
  qed
qed

theorem startup_failure_message_then_exit_status_zero_witness:
  "py_int ''9000'' = Some 9000 \<and> py_int ''80'' = Some 80 \<and>
   main (example_env\<lparr>path_exists := \<lambda>f. False\<rparr>) example_process
        [''local-test-server.py'', ''9000''] =
     ([Print (cross_mark @ '' test-page.html not found in current directory''),
       Print (light_bulb @ '' Make sure you'' @ [CHR 0x27] @
              ''re running this from the project root directory'')], Exit 0) \<and>
   main example_env example_process [''local-test-server.py'', ''9000''] =
     ([TCPServer 9000,
       Print (cross_mark @ '' Port 9000 is already in use''),
       Print (light_bulb @ '' Try a different port: python local-test-server.py 9001'')],
      Exit 0) \<and>
   main (example_env\<lparr>tcp_server := \<lambda>q. Some (OSError ''[Errno 13] Permission denied'')\<rparr>)
        example_process [''local-test-server.py'', ''80''] =
     ([TCPServer 80,
       Print (cross_mark @ '' Error starting server: [Errno 13] Permission denied'')],
      Exit 0)"
proof -
  have n: "py_int ''9000'' = Some 9000" "py_int ''80'' = Some 80"
    by (simp_all add: py_int_ascii parse_ascii_def strip_def is_space_def parse_unsigned_def
          is_digit_def digit_val_def max_str_digits_def)
  have a1: "if 1 < length [''local-test-server.py'', ''9000'']
            then py_int ([''local-test-server.py'', ''9000''] ! 1) = Some 9000
            else 9000 = (8000::int)"
    using n by simp
  have a2: "if 1 < length [''local-test-server.py'', ''80'']
            then py_int ([''local-test-server.py'', ''80''] ! 1) = Some 80
            else 80 = (8000::int)"
    using n by simp
  have s: "str_int 9000 = ''9000''" "str_int (9000 + 1) = ''9001''"
    by (simp_all add: str_int_def str_nat.simps digit_char_def)
  have e1: "\<not> path_exists (example_env\<lparr>path_exists := \<lambda>f. False\<rparr>) ''test-page.html''"
    by simp
  have e2: "path_exists example_env ''test-page.html'' \<and>
            tcp_server example_env 9000 = Some (OSError ''[Errno 98] Address already in use'') \<and>
            contains ''Address already in use'' ''[Errno 98] Address already in use''"
    by (simp add: example_env_def posix_tcp_server_def)
  have e3: "path_exists (example_env\<lparr>tcp_server := \<lambda>q. Some (OSError ''[Errno 13] Permission denied'')\<rparr>)
              ''test-page.html'' \<and>
            tcp_server (example_env\<lparr>tcp_server := \<lambda>q. Some (OSError ''[Errno 13] Permission denied'')\<rparr>) 80 =
              Some (OSError ''[Errno 13] Permission denied'') \<and>
            \<not> contains ''Address already in use'' ''[Errno 13] Permission denied''"
    by (simp add: example_env_def)
  from n s e1 e2 e3
    startup_failure_message_then_exit_status_zero[OF a1,
      where env = "example_env\<lparr>path_exists := \<lambda>f. False\<rparr>" and p = example_process]
    startup_failure_message_then_exit_status_zero[OF a1,
      where env = example_env and m = "''[Errno 98] Address already in use''"
        and p = example_process]
    startup_failure_message_then_exit_status_zero[OF a2,
      where env = "example_env\<lparr>tcp_server := \<lambda>q. Some (OSError ''[Errno 13] Permission denied'')\<rparr>"
        and m = "''[Errno 13] Permission denied''" and p = example_process]
  show ?thesis by simp
qed



text \<open>
  Claim C7, as amended. Every line logged while requests are handled is the decorative
  prefix, a space, and the message the library formatted for that log call,
  \<open>format % args\<close>, for one of the requests; the client address, the time and the
  escaping of control characters of the library's own log line are not part of it.
\<close>

theorem log_line_is_prefix_and_message:
  assumes "Print l \<in> set (fst (serve env p rs))"
  shows "\<exists>r \<in> set rs. \<exists>f a m. (f, a) \<in> set (log_calls (library env (cwd p) r)) \<and>
            percent f a = Inr m \<and> l = globe @ '' '' @ m"
proof -
  from assms obtain r where "r \<in> set rs" "Print l \<in> set (fst (handle env p r))"
    using serve_event_request by blast
  with handle_print show ?thesis by blast
qed

theorem log_line_is_prefix_and_message_witness:
  "Print (globe @ '' code 404, message File not found'') \<in>
     set (fst (serve example_env example_process (requests example_env))) \<and>
   (\<exists>r \<in> set (requests example_env). \<exists>f a m.
      (f, a) \<in> set (log_calls (library example_env (cwd example_process) r)) \<and>
      percent f a = Inr m \<and>
      globe @ '' code 404, message File not found'' = globe @ '' '' @ m)"
proof -
  have h: "Print (globe @ '' code 404, message File not found'') \<in>
     set (fst (serve example_env example_process (requests example_env)))"
    by (simp add: example_serve)
  from h log_line_is_prefix_and_message[OF h] show ?thesis by (rule conjI)
qed

text \<open>
  The claim as first stated, with the library's default log line after the prefix, fails:
  for the request line of the test page the override prints the message alone, where the
  library's line starts with the client address and the time; and it prints an escape
  character as it is, where the library's line has \<open>\x1b\<close>.
\<close>

theorem log_line_differs_from_library_default:
  "log_message log_request_format [Str ''GET /test-page.html HTTP/1.1'', Str ''200'', Str ''-''] =
     Inr (Print (globe @ '' '' @ [CHR 0x22] @ ''GET /test-page.html HTTP/1.1'' @ [CHR 0x22] @
                 '' 200 -'')) \<and>
   super_log_message ''127.0.0.1'' ''04/Nov/2026 10:00:00'' log_request_format
       [Str ''GET /test-page.html HTTP/1.1'', Str ''200'', Str ''-''] =
     Inr (''127.0.0.1 - - [04/Nov/2026 10:00:00] '' @ [CHR 0x22] @
          ''GET /test-page.html HTTP/1.1'' @ [CHR 0x22] @ '' 200 -'') \<and>
   globe @ '' '' @ [CHR 0x22] @ ''GET /test-page.html HTTP/1.1'' @ [CHR 0x22] @ '' 200 -'' \<noteq>
   globe @ '' '' @ ''127.0.0.1 - - [04/Nov/2026 10:00:00] '' @ [CHR 0x22] @
     ''GET /test-page.html HTTP/1.1'' @ [CHR 0x22] @ '' 200 -'' \<and>
   log_message [Conv_s] [Str [CHR 0x1B]] = Inr (Print (globe @ '' '' @ [CHR 0x1B])) \<and>
   super_log_message ''127.0.0.1'' ''04/Nov/2026 10:00:00'' [Conv_s] [Str [CHR 0x1B]] =
     Inr (''127.0.0.1 - - [04/Nov/2026 10:00:00] '' @ [CHR 0x5C] @ ''x1b'')"
  by (simp add: log_message_def super_log_message_def log_request_format_def escape_char_def
        hex_escape_def hex_digit_def globe_def)

text \<open>
  Claim C8. Once the server is constructed, whatever \<open>webbrowser.open\<close> raises is
  caught: a note is printed, the serve loop is entered and every request that arrives is
  handled.
\<close>

theorem browser_failure_tolerated:
  assumes "path_exists env ''test-page.html''"
    and "tcp_server env port = None"
    and "webbrowser_open env (test_url port) = Some e"
  shows "\<exists>post. fst (start_test_server env p port) =
           TCPServer port # banner port @
           [Webbrowser_open (test_url port),
            Print (info_sign @
              ''  Manually open http://localhost:{port}/test-page.html in your browser''),
            Serve_forever] @
           concat (map (\<lambda>r. fst (handle env p r)) (requests env)) @ post"
proof (cases "interrupt env")
  case None
  with assms show ?thesis
    by (simp add: start_test_server_def serve_block_def launch_browser_def Let_def serve_trace)
next
  case (Some x)
  obtain tr' r' where ec: "except_clauses port (Raised x) = (tr', r')"
    by (cases "except_clauses port (Raised x)")
  with Some assms show ?thesis
    by (simp add: start_test_server_def serve_block_def launch_browser_def Let_def serve_trace)
qed

theorem browser_failure_tolerated_witness:
  "path_exists (example_env\<lparr>webbrowser_open := \<lambda>u. Some KeyboardInterrupt\<rparr>) ''test-page.html'' \<and>
   tcp_server (example_env\<lparr>webbrowser_open := \<lambda>u. Some KeyboardInterrupt\<rparr>) 8000 = None \<and>
   (\<exists>post. fst (start_test_server (example_env\<lparr>webbrowser_open := \<lambda>u. Some KeyboardInterrupt\<rparr>)
                 example_process 8000) =
           TCPServer 8000 # banner 8000 @
           [Webbrowser_open (test_url 8000),
            Print (info_sign @
              ''  Manually open http://localhost:{port}/test-page.html in your browser''),
            Serve_forever] @
           concat (map (\<lambda>r. fst (handle (example_env\<lparr>webbrowser_open := \<lambda>u. Some KeyboardInterrupt\<rparr>)
                                     example_process r))
                       (requests (example_env\<lparr>webbrowser_open := \<lambda>u. Some KeyboardInterrupt\<rparr>))) @ post)"
proof -
  let ?env = "example_env\<lparr>webbrowser_open := \<lambda>u. Some KeyboardInterrupt\<rparr>"
  have a: "path_exists ?env ''test-page.html''" by (simp add: example_env_def)
  have b: "tcp_server ?env 8000 = None" by (simp add: example_env_def posix_tcp_server_def)
  have c: "webbrowser_open ?env (test_url 8000) = Some KeyboardInterrupt" by simp
  from a b browser_failure_tolerated[OF a b c, of example_process] show ?thesis by blast
qed

text \<open>
  Claim C9. When the port argument parses as an integer but the server construction
  raises an exception that is neither an \<open>OSError\<close> nor a \<open>KeyboardInterrupt\<close>, as
  it does for 70000 and for -1, no \<open>except\<close> clause catches it: the process ends
  with the traceback of that exception and prints no bind-error message.
\<close>

theorem out_of_range_port_uncaught:
  assumes "path_exists env ''test-page.html''"
    and "py_int s = Some port"
    and "tcp_server env port = Some e"
    and "\<not> is_OSError e"
    and "e \<noteq> KeyboardInterrupt"
  shows "main env p [prog, s] = ([TCPServer port], Traceback e)"
proof -
  from assms(4,5) have "except_clauses port (Raised e) = ([], Raised e)"
    by (cases e) simp_all
  with assms(1,3) have "start_test_server env p port = ([TCPServer port], Raised e)"
    by (simp add: start_test_server_def serve_block_def)
  with assms(2) show ?thesis by (simp add: main_def)
qed

theorem out_of_range_port_uncaught_witness:
  "py_int ''70000'' = Some 70000 \<and> py_int ''-1'' = Some (- 1) \<and>
   main example_env example_process [''local-test-server.py'', ''70000''] =
     ([TCPServer 70000], Traceback (OverflowError ''bind(): port must be 0-65535.'')) \<and>
   main example_env example_process [''local-test-server.py'', ''-1''] =
     ([TCPServer (- 1)], Traceback (OverflowError ''bind(): port must be 0-65535.''))"
proof -
  have a: "path_exists example_env ''test-page.html''" by (simp add: example_env_def)
  have n1: "py_int ''70000'' = Some 70000"
    by (simp add: py_int_ascii parse_ascii_def strip_def is_space_def parse_unsigned_def
          is_digit_def digit_val_def max_str_digits_def)
  have n2: "py_int ''-1'' = Some (- 1)"
    by (simp add: py_int_ascii parse_ascii_def strip_def is_space_def parse_unsigned_def
          is_digit_def digit_val_def max_str_digits_def)
  have t1: "tcp_server example_env 70000 = Some (OverflowError ''bind(): port must be 0-65535.'')"
    by (simp add: example_env_def posix_tcp_server_def)
  have t2: "tcp_server example_env (- 1) = Some (OverflowError ''bind(): port must be 0-65535.'')"
    by (simp add: example_env_def posix_tcp_server_def)
  have ov: "\<not> is_OSError (OverflowError ''bind(): port must be 0-65535.'')"
    "OverflowError ''bind(): port must be 0-65535.'' \<noteq> KeyboardInterrupt"
    by simp_all
  from n1 n2 out_of_range_port_uncaught[OF a n1 t1 ov, of example_process "''local-test-server.py''"]
    out_of_range_port_uncaught[OF a n2 t2 ov, of example_process "''local-test-server.py''"]
  show ?thesis by simp
qed

text \<open>
  Claim C10. The note printed when the browser launch raises contains the literal text
  \<open>{port}\<close>, not the port number: it is the same string for every port.
\<close>

theorem fallback_note_has_literal_port_placeholder:
  assumes "webbrowser_open env (test_url port) = Some e"
    and "webbrowser_open env (test_url port') = Some e'"
  shows "last (launch_browser env port) =
           Print (info_sign @
             ''  Manually open http://localhost:{port}/test-page.html in your browser'') \<and>
         last (launch_browser env port') = last (launch_browser env port) \<and>
         contains ''{port}''
           (info_sign @ ''  Manually open http://localhost:{port}/test-page.html in your browser'')"
  using assms by (simp add: launch_browser_def info_sign_def)

theorem fallback_note_has_literal_port_placeholder_witness:
  "last (launch_browser (example_env\<lparr>webbrowser_open := \<lambda>u. Some (Exception ''webbrowser.Error'' ''no browser'')\<rparr>) 8000) =
     Print (info_sign @ ''  Manually open http://localhost:{port}/test-page.html in your browser'') \<and>
   last (launch_browser (example_env\<lparr>webbrowser_open := \<lambda>u. Some (Exception ''webbrowser.Error'' ''no browser'')\<rparr>) 9100) =
   last (launch_browser (example_env\<lparr>webbrowser_open := \<lambda>u. Some (Exception ''webbrowser.Error'' ''no browser'')\<rparr>) 8000)"
proof -
  let ?env = "example_env\<lparr>webbrowser_open := \<lambda>u. Some (Exception ''webbrowser.Error'' ''no browser'')\<rparr>"
  have a: "webbrowser_open ?env (test_url 8000) = Some (Exception ''webbrowser.Error'' ''no browser'')"
    by simp
  have b: "webbrowser_open ?env (test_url 9100) = Some (Exception ''webbrowser.Error'' ''no browser'')"
    by simp
  from fallback_note_has_literal_port_placeholder[OF a b] show ?thesis by blast
qed

end
